theory Spec2Isabelle
  imports Complex_Main
begin

section \<open>Overview\<close>

text \<open>
  A model of the class \<open>TelegramMiniGame\<close> of \<open>game-interface.js\<close>: its configuration
  and the parsing of the query string, its session state and lifecycle, its milestones,
  the result it generates and the way it sends the result to the host.

  The method \<open>sendResult\<close> is modelled in the four versions that the repository's
  source files give it: the one of \<open>game-interface.js\<close>, on which \<open>end\<close> is built here,
  the one of \<open>game-interface_working.js\<close>, the one of \<open>src/unnamed/part_000\<close>, and the
  one of the earlier copy of the class that follows in \<open>game-interface.js\<close> from line 690
  on. The class around it is the same in the first three; the earlier copy has no
  languages and no milestones.

  Every method is a function from the object and what the method reads from outside
  (its arguments, the clock, the user's answer to a dialog) to the object afterwards, the
  trace of its effects, and its outcome: the value returned or the exception thrown.
\<close>

section \<open>JavaScript values\<close>

text \<open>
  The class works on plain JavaScript data.
  A number is either \<open>NaN\<close> (what \<open>parseInt\<close> and \<open>parseFloat\<close> return on text that is
  not a number) or a finite value, taken as an exact real: rounding and the infinities of
  double arithmetic are outside the model.
\<close>

datatype jsnum = NaN | Fin real

datatype jsval =
    JUndefined
  | JNull
  | JBool bool
  | JNum jsnum
  | JStr string
  | JArr "jsval list"
  | JObj "(string \<times> jsval) list"

text \<open>Truthiness, as \<open>if (v)\<close>, \<open>!v\<close> and \<open>v || w\<close> read it.\<close>

fun truthy_num :: "jsnum \<Rightarrow> bool" where
  "truthy_num NaN = False"
| "truthy_num (Fin x) = (x \<noteq> 0)"

fun truthy :: "jsval \<Rightarrow> bool" where
  "truthy JUndefined = False"
| "truthy JNull = False"
| "truthy (JBool b) = b"
| "truthy (JNum n) = truthy_num n"
| "truthy (JStr s) = (s \<noteq> [])"
| "truthy (JArr xs) = True"
| "truthy (JObj ps) = True"

definition js_or :: "jsval \<Rightarrow> jsval \<Rightarrow> jsval" where
  "js_or a b = (if truthy a then a else b)"

text \<open>
  Reading a property \<open>v.k\<close>. On \<open>null\<close> and \<open>undefined\<close> (\<open>nullish\<close>) the read throws a
  TypeError, which the caller of \<open>get_prop\<close> checks first; on an object it yields the own
  data property or \<open>undefined\<close>; the names the program reads (\<open>sessionId\<close>, \<open>count\<close>, ...)
  are no properties of a primitive or an array.
\<close>

fun nullish :: "jsval \<Rightarrow> bool" where
  "nullish JUndefined = True"
| "nullish JNull = True"
| "nullish v = False"

fun get_prop :: "jsval \<Rightarrow> string \<Rightarrow> jsval" where
  "get_prop (JObj ps) k = (case map_of ps k of None \<Rightarrow> JUndefined | Some v \<Rightarrow> v)"
| "get_prop v k = JUndefined"

text \<open>\<open>v?.k\<close>: \<open>undefined\<close> instead of the TypeError.\<close>

definition opt_member :: "jsval \<Rightarrow> string \<Rightarrow> jsval" where
  "opt_member v k = (if nullish v then JUndefined else get_prop v k)"

text \<open>Arithmetic on numbers: \<open>NaN\<close> is absorbing.\<close>

fun js_mul :: "jsnum \<Rightarrow> jsnum \<Rightarrow> jsnum" where
  "js_mul (Fin a) (Fin b) = Fin (a * b)"
| "js_mul a b = NaN"

fun js_sub :: "jsnum \<Rightarrow> jsnum \<Rightarrow> jsnum" where
  "js_sub (Fin a) (Fin b) = Fin (a - b)"
| "js_sub a b = NaN"

fun js_floor :: "jsnum \<Rightarrow> jsnum" where
  "js_floor (Fin a) = Fin (of_int \<lfloor>a\<rfloor>)"
| "js_floor NaN = NaN"

text \<open>
  \<open>a / b\<close>; the code divides by a truthy number only, so that the infinity of a division
  by zero does not occur.
\<close>

fun js_div :: "jsnum \<Rightarrow> jsnum \<Rightarrow> jsnum" where
  "js_div (Fin a) (Fin b) = Fin (a / b)"
| "js_div a b = NaN"

text \<open>\<open>Math.min\<close> and \<open>Math.max\<close> of two numbers: \<open>NaN\<close> if one of them is.\<close>

fun js_min :: "jsnum \<Rightarrow> jsnum \<Rightarrow> jsnum" where
  "js_min (Fin a) (Fin b) = Fin (min a b)"
| "js_min a b = NaN"

fun js_max :: "jsnum \<Rightarrow> jsnum \<Rightarrow> jsnum" where
  "js_max (Fin a) (Fin b) = Fin (max a b)"
| "js_max a b = NaN"

text \<open>The comparison \<open>a > b\<close>: false when one side is \<open>NaN\<close>.\<close>

fun js_gt :: "jsnum \<Rightarrow> jsnum \<Rightarrow> bool" where
  "js_gt (Fin a) (Fin b) = (a > b)"
| "js_gt a b = False"

section \<open>Host functions and errors\<close>

text \<open>
  The functions of the JavaScript platform that the class calls are parameters of the
  model: \<open>parseInt\<close>, \<open>parseFloat\<close>, \<open>JSON.stringify\<close> and the conversion of a value to
  text in a template literal. The values of the model are finite trees, on which
  \<open>JSON.stringify\<close> always returns.
\<close>

record builtins =
  b_parseInt :: "string \<Rightarrow> jsnum"
  b_parseFloat :: "string \<Rightarrow> jsnum"
  b_stringify :: "jsval \<Rightarrow> string"
  b_toString :: "jsval \<Rightarrow> string"

datatype jserror = TypeError string | HostError string

fun message :: "jserror \<Rightarrow> string" where
  "message (TypeError m) = m"
| "message (HostError m) = m"

text \<open>Decimal text of a natural number (\<open>Date.now()\<close>, a string's length).\<close>

definition digit_char :: "nat \<Rightarrow> char" where
  "digit_char d = char_of (48 + d)"

fun decimal_nat :: "nat \<Rightarrow> string" where
  "decimal_nat n =
     (if 10 \<le> n then decimal_nat (n div 10) @ [digit_char (n mod 10)] else [digit_char n])"

declare decimal_nat.simps [simp del]

text \<open>
  A text is held as its UTF-8 bytes. \<open>s.length\<close> counts UTF-16 units: one for a
  character of one, two or three bytes, two for a character of four bytes, and none for
  the bytes that continue a character.
\<close>

definition utf16_units :: "char \<Rightarrow> nat" where
  "utf16_units c =
     (if (of_char c :: nat) < 128 then 1 else if (of_char c :: nat) < 192 then 0
      else if (of_char c :: nat) < 240 then 1 else 2)"

definition utf16_length :: "string \<Rightarrow> nat" where
  "utf16_length s = sum_list (map utf16_units s)"

text \<open>
  \<open>s.split('-')[0].toLowerCase()\<close>: the text before the first \<open>-\<close>, with the letters
  \<open>A\<close> to \<open>Z\<close> in lower case.
\<close>

definition toLowerCase_char :: "char \<Rightarrow> char" where
  "toLowerCase_char c =
     (if (65::nat) \<le> of_char c \<and> of_char c \<le> (90::nat) then char_of (of_char c + (32::nat)) else c)"

definition toLowerCase :: "string \<Rightarrow> string" where
  "toLowerCase s = map toLowerCase_char s"

definition split_first :: "char \<Rightarrow> string \<Rightarrow> string" where
  "split_first sep s = takeWhile (\<lambda>c. c \<noteq> sep) s"

text \<open>\<open>a || b\<close> on two texts that may be \<open>null\<close>: the empty text is falsy.\<close>

fun str_or :: "string option \<Rightarrow> string option \<Rightarrow> string option" where
  "str_or (Some s) b = (if s \<noteq> [] then Some s else b)"
| "str_or None b = b"

section \<open>Configuration\<close>

text \<open>
  The \<open>config\<close> object of the constructor. \<open>timeLimit\<close> and \<open>sessionId\<close> start as
  \<open>null\<close> (\<open>None\<close>).
\<close>

record config =
  cfg_gameId :: jsval
  cfg_gameName :: jsval
  cfg_version :: string
  cfg_difficulty :: jsnum
  cfg_timeLimit :: "jsnum option"
  cfg_timeModifier :: jsnum
  cfg_hintsEnabled :: bool
  cfg_hintsCount :: jsnum
  cfg_soundEnabled :: bool
  cfg_hapticsEnabled :: bool
  cfg_scoreModifier :: jsnum
  cfg_penaltyEnabled :: bool
  cfg_sessionId :: "string option"
  cfg_userId :: jsval
  cfg_language :: string
  cfg_custom :: jsval

text \<open>The user record of the host, \<open>tg.initDataUnsafe.user\<close>.\<close>

record tguser =
  usr_id :: jsval
  usr_language_code :: "string option"

definition default_config :: "jsval \<Rightarrow> config" where
  "default_config gameConfig =
     \<lparr> cfg_gameId = get_prop gameConfig ''gameId'',
       cfg_gameName = get_prop gameConfig ''gameName'',
       cfg_version = ''1.0.0'',
       cfg_difficulty = Fin 1,
       cfg_timeLimit = None,
       cfg_timeModifier = Fin 1,
       cfg_hintsEnabled = True,
       cfg_hintsCount = Fin 3,
       cfg_soundEnabled = True,
       cfg_hapticsEnabled = True,
       cfg_scoreModifier = Fin 1,
       cfg_penaltyEnabled = True,
       cfg_sessionId = None,
       cfg_userId = JNull,
       cfg_language = ''en'',
       cfg_custom = js_or (get_prop gameConfig ''custom'') (JObj []) \<rparr>"

text \<open>
  \<open>parseInputParams\<close>. \<open>urlParams\<close> is the list of the query string's entries, as
  \<open>URLSearchParams\<close> holds it: \<open>has(k)\<close> is \<open>map_of urlParams k \<noteq> None\<close> and \<open>get(k)\<close> the
  first value of \<open>k\<close>, or \<open>null\<close>. The language is a local value that may be \<open>null\<close>
  until it is normalised; \<open>null.split\<close> throws.
\<close>

definition has :: "(string \<times> string) list \<Rightarrow> string \<Rightarrow> bool" where
  "has urlParams k = (map_of urlParams k \<noteq> None)"

definition override_num ::
  "(string \<times> string) list \<Rightarrow> string \<Rightarrow> (string \<Rightarrow> jsnum) \<Rightarrow> jsnum \<Rightarrow> jsnum" where
  "override_num urlParams k parse d = (case map_of urlParams k of Some v \<Rightarrow> parse v | None \<Rightarrow> d)"

definition parseInputParams ::
  "builtins \<Rightarrow> (string \<times> string) list \<Rightarrow> tguser option \<Rightarrow> config \<Rightarrow> jserror + config" where
  "parseInputParams B urlParams user c =
     (let difficulty = override_num urlParams ''difficulty'' (b_parseInt B) (cfg_difficulty c);
          timeLimit = (case map_of urlParams ''timeLimit'' of
                         Some v \<Rightarrow> Some (b_parseInt B v) | None \<Rightarrow> cfg_timeLimit c);
          timeModifier = override_num urlParams ''timeModifier'' (b_parseFloat B) (cfg_timeModifier c);
          hintsCount = override_num urlParams ''hints'' (b_parseInt B) (cfg_hintsCount c);
          sessionId = (case map_of urlParams ''sessionId'' of
                         Some v \<Rightarrow> Some v | None \<Rightarrow> cfg_sessionId c);
          scoreModifier = override_num urlParams ''scoreModifier'' (b_parseFloat B) (cfg_scoreModifier c);
          language1 = (if has urlParams ''lang'' \<or> has urlParams ''language''
                       then str_or (map_of urlParams ''lang'') (map_of urlParams ''language'')
                       else Some (cfg_language c));
          userId = (case user of Some u \<Rightarrow> usr_id u | None \<Rightarrow> cfg_userId c);
          language2 = (case user of
                         Some u \<Rightarrow>
                           if \<not> has urlParams ''lang'' \<and> \<not> has urlParams ''language''
                           then str_or (usr_language_code u) (Some ''en'')
                           else language1
                       | None \<Rightarrow> language1)
      in case language2 of
           None \<Rightarrow> Inl (TypeError ''Cannot read properties of null (reading 'split')'')
         | Some l \<Rightarrow>
             Inr (c\<lparr> cfg_difficulty := difficulty,
                     cfg_timeLimit :=
                       (case timeLimit of
                          Some t \<Rightarrow> if truthy_num t then Some (js_floor (js_mul t timeModifier)) else Some t
                        | None \<Rightarrow> None),
                     cfg_timeModifier := timeModifier,
                     cfg_hintsCount := hintsCount,
                     cfg_sessionId := sessionId,
                     cfg_scoreModifier := scoreModifier,
                     cfg_userId := userId,
                     cfg_language := toLowerCase (split_first (CHR ''-'') l) \<rparr>))"

section \<open>Session state, the host bridge and effects\<close>

text \<open>
  The \<open>state\<close> object. The status is the text the code stores; the score and the
  counters, which a game writes, are numbers and may be \<open>NaN\<close>; a timestamp is \<open>null\<close>
  (\<open>None\<close>) or a number of milliseconds.
\<close>

record gstate =
  st_status :: string
  st_score :: jsnum
  st_moves :: jsnum
  st_mistakes :: jsnum
  st_hintsUsed :: jsnum
  st_startTime :: "nat option"
  st_endTime :: "nat option"
  st_timeElapsed :: int

text \<open>
  The host bridge \<open>window.Telegram.WebApp\<close>: \<open>sendData\<close> is absent (\<open>None\<close>, so that
  \<open>typeof this.tg.sendData === 'function'\<close> is false) or a function that returns or throws.
\<close>

record webapp =
  wa_sendData :: "(string \<Rightarrow> jserror option) option"
  wa_user :: "tguser option"
  wa_initData :: string
  wa_query_id :: "string option"

type_synonym translation_table = "(string \<times> (string \<times> string) list) list"

record game =
  g_config :: config
  g_state :: gstate
  g_milestones :: "jsval list"
  g_translations :: translation_table
  g_tg :: webapp

text \<open>
  What a method does to the world outside the object, in the order it does it. A timer
  and a network request carry the effects of their callbacks. Console messages are given
  without their pictographs and without the objects logged after them. Writing to local
  storage, the alert and the console are taken to return: a full storage is outside the
  model.
\<close>

datatype level = Log | Warn | Err

datatype effect =
    Console level string
  | SetItem string string
  | Alert string
  | SendData string
  | PostMessage jsval
  | Close
  | HostCall string
  | Dom
  | SetTimeout nat "effect list"
  | Fetch string string "effect list" "effect list"

text \<open>The methods a game overrides; \<open>base_hooks\<close> are the ones of the class itself.\<close>

record hooks =
  h_getOptimalScore :: "game \<Rightarrow> jsnum option"
  h_isOptimalSolution :: "game \<Rightarrow> bool"
  h_checkAchievements :: "game \<Rightarrow> jsval"
  h_getGameSpecificData :: "game \<Rightarrow> jsval"
  h_captureGameState :: "game \<Rightarrow> jsval"

definition base_hooks :: hooks where
  "base_hooks =
     \<lparr> h_getOptimalScore = (\<lambda>g. None),
       h_isOptimalSolution = (\<lambda>g. False),
       h_checkAchievements = (\<lambda>g. JArr []),
       h_getGameSpecificData = (\<lambda>g. JObj []),
       h_captureGameState = (\<lambda>g. JObj []) \<rparr>"

definition initial_state :: gstate where
  "initial_state =
     \<lparr> st_status = ''idle'', st_score = Fin 0, st_moves = Fin 0, st_mistakes = Fin 0,
       st_hintsUsed = Fin 0,
       st_startTime = None, st_endTime = None, st_timeElapsed = 0 \<rparr>"

definition newline :: string where
  "newline = [CHR 0x0A]"

definition initTelegram :: "effect list" where
  "initTelegram = [HostCall ''ready'', HostCall ''expand'', HostCall ''BackButton.onClick'',
                   HostCall ''onEvent'']"

text \<open>
  The constructor: \<open>gameConfig.gameId\<close> throws on a missing argument, and
  \<open>parseInputParams\<close> may throw; then there is no object. Between the two the
  constructor makes the host calls of \<open>initTelegram\<close>, which do not touch the object.
\<close>

definition constructor ::
  "builtins \<Rightarrow> webapp \<Rightarrow> (string \<times> string) list \<Rightarrow> jsval \<Rightarrow> jserror + game" where
  "constructor B tg urlParams gameConfig =
     (if nullish gameConfig then Inl (TypeError ''Cannot read properties of undefined (reading 'gameId')'')
      else case parseInputParams B urlParams (wa_user tg) (default_config gameConfig) of
             Inl e \<Rightarrow> Inl e
           | Inr c \<Rightarrow>
               Inr \<lparr> g_config = c, g_state = initial_state, g_milestones = [],
                     g_translations = [], g_tg = tg \<rparr>)"

section \<open>Language support\<close>

fun join :: "string \<Rightarrow> string list \<Rightarrow> string" where
  "join sep [] = []"
| "join sep [x] = x"
| "join sep (x # y # ys) = x @ sep @ join sep (y # ys)"

text \<open>\<open>applyTranslations\<close> rewrites the text of the page and logs.\<close>

definition applyTranslations :: "game \<Rightarrow> effect list" where
  "applyTranslations g =
     [Dom, Console Log (''Translations applied ('' @ cfg_language (g_config g) @ '')'')]"

text \<open>
  \<open>setTranslations\<close> stores the table and applies it, at once or, while the document is
  still loading, from a listener it registers.
\<close>

definition setTranslations :: "bool \<Rightarrow> translation_table \<Rightarrow> game \<Rightarrow> game \<times> effect list" where
  "setTranslations loading table g =
     (let g' = g\<lparr>g_translations := table\<rparr>
      in (g', [Console Log (''Translations loaded for: '' @ join '', '' (map fst table))]
              @ (if loading then [HostCall ''addEventListener''] else applyTranslations g')))"

definition lookup_translation :: "translation_table \<Rightarrow> string \<Rightarrow> string \<Rightarrow> string option" where
  "lookup_translation tr lang key =
     (case map_of tr lang of
        None \<Rightarrow> None
      | Some d \<Rightarrow> (case map_of d key of None \<Rightarrow> None | Some s \<Rightarrow> if s \<noteq> [] then Some s else None))"

text \<open>The method \<open>t(key, fallback = null)\<close>.\<close>

definition translate :: "game \<Rightarrow> string \<Rightarrow> string option \<Rightarrow> string" where
  "translate g key fallback =
     (let lang = cfg_language (g_config g);
          dflt = (case str_or fallback (Some key) of Some s \<Rightarrow> s | None \<Rightarrow> key)
      in case lookup_translation (g_translations g) lang key of
           Some s \<Rightarrow> s
         | None \<Rightarrow>
             if lang \<noteq> ''en''
             then (case lookup_translation (g_translations g) ''en'' key of Some s \<Rightarrow> s | None \<Rightarrow> dflt)
             else dflt)"

section \<open>The rating system\<close>

text \<open>
  \<^verbatim>\<open>
  getRating(performance) {
      if (performance >= 95) return 'S';
      if (performance >= 85) return 'A';
      if (performance >= 75) return 'B';
      if (performance >= 60) return 'C';
      if (performance >= 40) return 'D';
      return 'F';
  }
  \<close>
\<close>

definition getRating :: "real \<Rightarrow> string" where
  "getRating performance =
     (if performance \<ge> 95 then ''S''
      else if performance \<ge> 85 then ''A''
      else if performance \<ge> 75 then ''B''
      else if performance \<ge> 60 then ''C''
      else if performance \<ge> 40 then ''D''
      else ''F'')"

text \<open>The order of the grades, \<open>F < D < C < B < A < S\<close>, as a rank.\<close>

definition gradeRank :: "string \<Rightarrow> nat" where
  "gradeRank g =
     (if g = ''F'' then 0 else if g = ''D'' then 1 else if g = ''C'' then 2
      else if g = ''B'' then 3 else if g = ''A'' then 4 else if g = ''S'' then 5 else 6)"

definition grades :: "string list" where
  "grades = [''F'', ''D'', ''C'', ''B'', ''A'', ''S'']"

text \<open>
  \<open>getRating\<close> on a number that may be \<open>NaN\<close>: every comparison with \<open>NaN\<close> is false, so
  that the last \<open>return\<close> is reached.
\<close>

fun getRating_js :: "jsnum \<Rightarrow> string" where
  "getRating_js (Fin performance) = getRating performance"
| "getRating_js NaN = ''F''"

section \<open>Events and milestones\<close>

text \<open>
  \<open>sendEvent\<close> posts the event to the parent window when the page runs in a frame
  (\<open>window.parent !== window\<close>) and logs it.
\<close>

definition cfg_sessionId_val :: "config \<Rightarrow> jsval" where
  "cfg_sessionId_val c = (case cfg_sessionId c of None \<Rightarrow> JNull | Some s \<Rightarrow> JStr s)"

definition cfg_timeLimit_val :: "config \<Rightarrow> jsval" where
  "cfg_timeLimit_val c = (case cfg_timeLimit c of None \<Rightarrow> JNull | Some n \<Rightarrow> JNum n)"

definition sendEvent :: "bool \<Rightarrow> nat \<Rightarrow> game \<Rightarrow> string \<Rightarrow> jsval \<Rightarrow> effect list" where
  "sendEvent inFrame now g eventName eventData =
     (let event = JObj [(''type'', JStr ''GAME_EVENT''), (''event'', JStr eventName),
                        (''gameId'', cfg_gameId (g_config g)),
                        (''sessionId'', cfg_sessionId_val (g_config g)),
                        (''timestamp'', JNum (Fin (real now))), (''data'', eventData)]
      in (if inFrame then [PostMessage event] else []) @ [Console Log (''Event: '' @ eventName)])"

text \<open>
  \<open>recordMilestone(milestoneName, metadata = {})\<close> reads the clock three times: for the
  timestamp, for the game time and in \<open>sendEvent\<close>. It returns the milestone it pushed.
\<close>

definition gameTime :: "gstate \<Rightarrow> nat \<Rightarrow> int" where
  "gameTime st now =
     (case st_startTime st of
        Some s \<Rightarrow> if s \<noteq> 0 then (int now - int s) div 1000 else 0
      | None \<Rightarrow> 0)"

definition milestone_of :: "hooks \<Rightarrow> game \<Rightarrow> string \<Rightarrow> jsval \<Rightarrow> nat \<Rightarrow> nat \<Rightarrow> jsval" where
  "milestone_of H g milestoneName metadata now1 now2 =
     JObj [(''name'', JStr milestoneName),
           (''timestamp'', JNum (Fin (real now1))),
           (''gameTime'', JNum (Fin (of_int (gameTime (g_state g) now2)))),
           (''state'', JObj [(''score'', JNum (st_score (g_state g))),
                             (''moves'', JNum (st_moves (g_state g))),
                             (''mistakes'', JNum (st_mistakes (g_state g))),
                             (''hintsUsed'', JNum (st_hintsUsed (g_state g)))]),
           (''gameData'', h_captureGameState H g),
           (''metadata'', if metadata = JUndefined then JObj [] else metadata)]"

definition recordMilestone ::
  "hooks \<Rightarrow> bool \<Rightarrow> nat \<Rightarrow> nat \<Rightarrow> nat \<Rightarrow> string \<Rightarrow> jsval \<Rightarrow> game \<Rightarrow> game \<times> effect list \<times> jsval" where
  "recordMilestone H inFrame now1 now2 now3 milestoneName metadata g =
     (let milestone = milestone_of H g milestoneName metadata now1 now2;
          g' = g\<lparr>g_milestones := g_milestones g @ [milestone]\<rparr>
      in (g',
          [Console Log (''Milestone: '' @ milestoneName)]
          @ sendEvent inFrame now3 g' ''milestone_reached''
              (JObj [(''milestone'', JStr milestoneName),
                     (''gameTime'', get_prop milestone ''gameTime''),
                     (''score'', JNum (st_score (g_state g')))]),
          milestone))"

definition getMilestonesSummary :: "game \<Rightarrow> jsval" where
  "getMilestonesSummary g =
     (if length (g_milestones g) = 0 then JNull
      else JObj [(''count'', JNum (Fin (real (length (g_milestones g))))),
                 (''milestones'', JArr (g_milestones g)),
                 (''firstMilestone'', g_milestones g ! 0),
                 (''lastMilestone'', g_milestones g ! (length (g_milestones g) - 1))])"

section \<open>Results\<close>

text \<open>The pictographs of the output text, as their UTF-8 bytes.\<close>

definition pict_party :: string where "pict_party = [CHR 0xF0, CHR 0x9F, CHR 0x8E, CHR 0x89]"
definition pict_pensive :: string where "pict_pensive = [CHR 0xF0, CHR 0x9F, CHR 0x98, CHR 0x94]"
definition pict_chart :: string where "pict_chart = [CHR 0xF0, CHR 0x9F, CHR 0x93, CHR 0x8A]"
definition pict_star :: string where "pict_star = [CHR 0xE2, CHR 0xAD, CHR 0x90]"
definition pict_target :: string where "pict_target = [CHR 0xF0, CHR 0x9F, CHR 0x8E, CHR 0xAF]"
definition pict_cross :: string where "pict_cross = [CHR 0xE2, CHR 0x9D, CHR 0x8C]"
definition pict_watch :: string where
  "pict_watch = [CHR 0xE2, CHR 0x8F, CHR 0xB1, CHR 0xEF, CHR 0xB8, CHR 0x8F]"
definition pict_bulb :: string where "pict_bulb = [CHR 0xF0, CHR 0x9F, CHR 0x92, CHR 0xA1]"

definition decimal_int :: "int \<Rightarrow> string" where
  "decimal_int i = (if 0 \<le> i then decimal_nat (nat i) else CHR ''-'' # decimal_nat (nat (- i)))"

text \<open>\<open>a % b\<close> on integers: the remainder has the sign of \<open>a\<close>.\<close>

definition js_rem :: "int \<Rightarrow> int \<Rightarrow> int" where
  "js_rem a b = sgn a * (\<bar>a\<bar> mod \<bar>b\<bar>)"

definition formatTime :: "int \<Rightarrow> string" where
  "formatTime seconds =
     (let mins = seconds div 60; secs = js_rem seconds 60
      in if mins > 0 then decimal_int mins @ ''m '' @ decimal_int secs @ ''s''
         else decimal_int secs @ ''s'')"

text \<open>\<open>difficultyNames[this.config.difficulty - 1]\<close> in a template: out of range is \<open>undefined\<close>.\<close>

definition difficultyName :: "jsnum \<Rightarrow> string" where
  "difficultyName d =
     (if d = Fin 1 then ''Easy'' else if d = Fin 2 then ''Medium''
      else if d = Fin 3 then ''Hard'' else if d = Fin 4 then ''Expert'' else ''undefined'')"

definition generateOutputString :: "builtins \<Rightarrow> game \<Rightarrow> bool \<Rightarrow> string" where
  "generateOutputString B g success =
     (let st = g_state g;
          emoji = (if success then pict_party else pict_pensive);
          status = (if success then ''Completed'' else ''Failed'');
          num = (\<lambda>x. b_toString B (JNum x))
      in emoji @ '' '' @ b_toString B (cfg_gameName (g_config g)) @ '' - '' @ status @ newline
         @ pict_chart @ '' Difficulty: '' @ difficultyName (cfg_difficulty (g_config g)) @ newline
         @ pict_star @ '' Score: '' @ num (st_score st) @ newline
         @ pict_target @ '' Moves: '' @ num (st_moves st) @ newline
         @ (if js_gt (st_mistakes st) (Fin 0)
            then pict_cross @ '' Mistakes: '' @ num (st_mistakes st) @ newline else [])
         @ (if st_timeElapsed st \<noteq> 0
            then pict_watch @ '' Time: '' @ formatTime (st_timeElapsed st) @ newline else [])
         @ (if js_gt (st_hintsUsed st) (Fin 0)
            then pict_bulb @ '' Hints used: '' @ num (st_hintsUsed st) @ newline else []))"

text \<open>
  \<open>generateResult(success)\<close>. The rating is computed from \<open>performance\<close> before the clamp
  to \<open>0\<close>, the \<open>performance\<close> field after it. A score that is \<open>NaN\<close> goes through the
  division, \<open>Math.min\<close> and \<open>Math.max\<close> as \<open>NaN\<close>.
\<close>

definition performance_of :: "hooks \<Rightarrow> game \<Rightarrow> jsnum" where
  "performance_of H g =
     (case h_getOptimalScore H g of
        Some optimalScore \<Rightarrow>
          if truthy_num optimalScore
          then js_min (Fin 100) (js_mul (js_div (st_score (g_state g)) optimalScore) (Fin 100))
          else Fin 100
      | None \<Rightarrow> Fin 100)"

definition generateResult :: "builtins \<Rightarrow> hooks \<Rightarrow> string \<Rightarrow> game \<Rightarrow> bool \<Rightarrow> jsval" where
  "generateResult B H isoNow g success =
     (let c = g_config g; st = g_state g; performance = performance_of H g
      in JObj
        [(''sessionId'', cfg_sessionId_val c),
         (''gameId'', cfg_gameId c),
         (''gameName'', cfg_gameName c),
         (''userId'', cfg_userId c),
                  (''timestamp'', JStr isoNow),
         (''success'', JBool success),
         (''status'', JStr (st_status st)),
         (''score'', JNum (st_score st)),
         (''finalScore'', JNum (js_floor (js_mul (st_score st) (cfg_scoreModifier c)))),
         (''moves'', JNum (st_moves st)),
         (''mistakes'', JNum (st_mistakes st)),
         (''hintsUsed'', JNum (st_hintsUsed st)),
         (''timeElapsed'', JNum (Fin (of_int (st_timeElapsed st)))),
         (''timeLimit'', cfg_timeLimit_val c),
         (''timeRemaining'',
            (case cfg_timeLimit c of
               Some t \<Rightarrow> if truthy_num t then JNum (js_sub t (Fin (of_int (st_timeElapsed st)))) else JNull
             | None \<Rightarrow> JNull)),
         (''performance'', JNum (js_min (Fin 100) (js_max (Fin 0) performance))),
         (''rating'', JStr (getRating_js performance)),
         (''difficulty'', JNum (cfg_difficulty c)),
         (''language'', JStr (cfg_language c)),
         (''modifiers'', JObj [(''timeModifier'', JNum (cfg_timeModifier c)),
                               (''scoreModifier'', JNum (cfg_scoreModifier c)),
                               (''hintsEnabled'', JBool (cfg_hintsEnabled c))]),
         (''optimal'', JBool (h_isOptimalSolution H g)),
         (''achievements'', h_checkAchievements H g),
         (''milestones'', getMilestonesSummary g),
         (''gameData'', h_getGameSpecificData H g),
         (''outputString'', JStr (generateOutputString B g success))])"

section \<open>Sending the result\<close>

text \<open>
  A method's outcome: it returns (\<open>None\<close>) or an exception leaves it (\<open>Some e\<close>).
  \<open>sendResult\<close> of \<open>game-interface.js\<close> first builds the compact result.
\<close>

definition compactResult :: "jsval \<Rightarrow> jsval" where
  "compactResult result =
     JObj [(''sessionId'', get_prop result ''sessionId''),
           (''gameId'', get_prop result ''gameId''),
           (''gameName'', get_prop result ''gameName''),
           (''userId'', get_prop result ''userId''),
           (''timestamp'', get_prop result ''timestamp''),
           (''success'', get_prop result ''success''),
           (''status'', get_prop result ''status''),
           (''score'', get_prop result ''score''),
           (''finalScore'', get_prop result ''finalScore''),
           (''moves'', get_prop result ''moves''),
           (''mistakes'', get_prop result ''mistakes''),
           (''hintsUsed'', get_prop result ''hintsUsed''),
           (''timeElapsed'', get_prop result ''timeElapsed''),
           (''timeLimit'', get_prop result ''timeLimit''),
           (''timeRemaining'', get_prop result ''timeRemaining''),
           (''performance'', get_prop result ''performance''),
           (''rating'', get_prop result ''rating''),
           (''difficulty'', get_prop result ''difficulty''),
           (''language'', get_prop result ''language''),
           (''optimal'', get_prop result ''optimal''),
           (''achievements'', js_or (get_prop result ''achievements'') (JArr [])),
           (''milestoneCount'',
              js_or (opt_member (get_prop result ''milestones'') ''count'') (JNum (Fin 0)))]"

definition ultraCompact :: "jsval \<Rightarrow> jsval" where
  "ultraCompact result =
     JObj [(''sessionId'', get_prop result ''sessionId''),
           (''gameId'', get_prop result ''gameId''),
           (''userId'', get_prop result ''userId''),
           (''success'', get_prop result ''success''),
           (''score'', get_prop result ''score''),
           (''moves'', get_prop result ''moves''),
           (''timeElapsed'', get_prop result ''timeElapsed''),
           (''rating'', get_prop result ''rating''),
           (''difficulty'', get_prop result ''difficulty'')]"

definition session_key :: "config \<Rightarrow> string" where
  "session_key c = ''game_result_'' @ (case cfg_sessionId c of None \<Rightarrow> ''null'' | Some s \<Rightarrow> s)"

definition alert_saved :: string where
  "alert_saved = ''Game completed!'' @ newline @ newline @ ''Result saved to localStorage (testing mode)''"

definition alert_error :: string where
  "alert_error = ''Error sending result. Data saved locally for recovery.''"

text \<open>
  The body of the \<open>try\<close> block, with the exception that leaves it. The size that is
  logged as bytes and compared with 4096 is \<open>resultString.length\<close>. \<open>resultString\<close> is
  declared \<open>const\<close>: on a text longer than 4096 the assignment of the ultra-compact
  text, evaluated first, throws a TypeError, and nothing after it runs.
\<close>

definition sendResult_try ::
  "builtins \<Rightarrow> string \<Rightarrow> game \<Rightarrow> jsval \<Rightarrow> effect list \<times> jserror option" where
  "sendResult_try B isoNow g result =
     (let resultString = b_stringify B (compactResult result);
          size = decimal_nat (utf16_length resultString);
          t1 = [Console Log (''Result size: '' @ size @ '' bytes (limit: 4096)'')]
      in if utf16_length resultString > 4096
         then (let ultra = b_stringify B (ultraCompact result)
               in (t1 @ [Console Err (''Result too large: '' @ size @ '' bytes'')],
                   Some (TypeError ''Assignment to constant variable.'')))
         else (let t2 = t1 @ [Console Log (''Result validated: '' @ size @ '' bytes'')]
               in case wa_sendData (g_tg g) of
                    Some send \<Rightarrow>
                      (let t3 = t2 @ [Console Log ''Calling Telegram.WebApp.sendData()...'',
                                      SetItem ''game_result_latest'' resultString,
                                      SetItem ''last_send_time'' isoNow,
                                      SendData resultString]
                       in case send resultString of
                            Some e \<Rightarrow> (t3, Some e)
                          | None \<Rightarrow>
                              (t3 @ [Console Log ''Data sent! Telegram will close WebApp automatically.''],
                               None))
                  | None \<Rightarrow>
                      (t2 @ [Console Warn ''Telegram.WebApp.sendData() not available'',
                             Console Log ''Saving to localStorage instead'',
                             SetItem (session_key (g_config g)) resultString,
                             SetItem ''game_result_latest'' resultString,
                             Alert alert_saved],
                       None)))"

definition error_record :: "jserror \<Rightarrow> jsval \<Rightarrow> jsval" where
  "error_record e result =
     JObj [(''error'', JStr (message e)),
           (''result'', JObj [(''sessionId'', get_prop result ''sessionId''),
                              (''gameId'', get_prop result ''gameId''),
                              (''score'', get_prop result ''score'')])]"

definition sendResult ::
  "builtins \<Rightarrow> nat \<Rightarrow> string \<Rightarrow> game \<Rightarrow> jsval \<Rightarrow> effect list \<times> jserror option" where
  "sendResult B now isoNow g result =
     (let t0 = [Console Log ''Sending result:'']
      in if nullish result
         then (t0, Some (TypeError ''Cannot read properties of undefined (reading 'sessionId')''))
         else if \<not> truthy (get_prop result ''sessionId'') \<or> \<not> truthy (get_prop result ''gameId'')
         then (t0 @ [Console Err ''Invalid result: missing sessionId or gameId''], None)
         else (case sendResult_try B isoNow g result of
                 (t, None) \<Rightarrow> (t0 @ t, None)
               | (t, Some e) \<Rightarrow>
                   (t0 @ t @ [Console Err ''Error sending result:'',
                              SetItem (''game_result_error_'' @ decimal_nat now)
                                      (b_stringify B (error_record e result)),
                              Alert alert_error],
                    None)))"

text \<open>
  \<open>sendResult\<close> of \<open>game-interface_working.js\<close>: the whole result is serialised, a long
  text only draws a warning, and the window is closed from a timer.
\<close>

definition sendResult_working_try ::
  "builtins \<Rightarrow> game \<Rightarrow> jsval \<Rightarrow> effect list \<times> jserror option" where
  "sendResult_working_try B g result =
     (let resultString = b_stringify B result;
          size = decimal_nat (utf16_length resultString);
          t1 = (if utf16_length resultString > 4096
                then [Console Warn (''Result size: '' @ size @ '' bytes (limit: 4096)'')] else [])
               @ [Console Log (''Result validated: '' @ size @ '' bytes'')]
      in case wa_sendData (g_tg g) of
           Some send \<Rightarrow>
             (case send resultString of
                Some e \<Rightarrow> (t1 @ [SendData resultString], Some e)
              | None \<Rightarrow>
                  (t1 @ [SendData resultString,
                         Console Log ''Result sent via Telegram.WebApp.sendData()'',
                         SetTimeout 1500 [Console Log ''Closing WebApp...'', Close]],
                   None))
         | None \<Rightarrow>
             (t1 @ [Console Warn ''Telegram.WebApp.sendData() not available'',
                    Console Log ''Saving to localStorage instead'',
                    SetItem (session_key (g_config g)) resultString,
                    SetItem ''game_result_latest'' resultString,
                    Alert alert_saved],
              None))"

definition sendResult_working ::
  "builtins \<Rightarrow> nat \<Rightarrow> game \<Rightarrow> jsval \<Rightarrow> effect list \<times> jserror option" where
  "sendResult_working B now g result =
     (let t0 = [Console Log ''Sending result:'']
      in if nullish result
         then (t0, Some (TypeError ''Cannot read properties of undefined (reading 'sessionId')''))
         else if \<not> truthy (get_prop result ''sessionId'') \<or> \<not> truthy (get_prop result ''gameId'')
         then (t0 @ [Console Err ''Invalid result: missing sessionId or gameId''], None)
         else (case sendResult_working_try B g result of
                 (t, None) \<Rightarrow> (t0 @ t, None)
               | (t, Some e) \<Rightarrow>
                   (t0 @ t @ [Console Err ''Error sending result:'',
                              SetItem (''game_result_error_'' @ decimal_nat now)
                                      (b_stringify B
                                         (JObj [(''error'', JStr (message e)), (''result'', result)])),
                              Alert alert_error],
                    None)))"

text \<open>
  \<open>sendResult\<close> of the third source file, \<open>src/unnamed/part_000\<close>: \<open>sendData\<close> in a
  \<open>try\<close>, a POST to the backend when the session has an id, the local copy, and
  \<open>sendData\<close> in a \<open>try\<close> once more. Calling a \<open>sendData\<close> that is no function throws
  inside the \<open>try\<close>.
\<close>

definition try_sendData :: "game \<Rightarrow> string \<Rightarrow> effect list \<Rightarrow> effect list \<Rightarrow> effect list" where
  "try_sendData g payload onSuccess onError =
     (case wa_sendData (g_tg g) of
        None \<Rightarrow> onError
      | Some send \<Rightarrow>
          SendData payload # (case send payload of None \<Rightarrow> onSuccess | Some e \<Rightarrow> onError))"

definition sendResult_part000 ::
  "builtins \<Rightarrow> game \<Rightarrow> jsval \<Rightarrow> effect list \<times> jserror option" where
  "sendResult_part000 B g result =
     (let payload = b_stringify B result
      in ([Console Log ''Sending result:'']
          @ try_sendData g payload [Console Log ''Result sent via sendData'']
                                   [Console Warn ''sendData failed:'']
          @ (case cfg_sessionId (g_config g) of
               Some sid \<Rightarrow>
                 if sid \<noteq> []
                 then [Fetch ''/api/game-result'' payload
                         [Console Log ''Result confirmed by server:'', SetTimeout 1000 [Close]]
                         [Console Err ''Server error:'', SetTimeout 1000 [Close]]]
                 else []
             | None \<Rightarrow> [])
          @ [SetItem (session_key (g_config g)) payload]
          @ try_sendData g payload [] [Console Log ''Could not send data to Telegram:''],
          None))"

text \<open>
  \<open>sendResult\<close> of the earlier copy of the class (\<open>game-interface.js\<close>, lines 862 to
  899): a POST to the backend when the host gave a \<open>query_id\<close>, whose success closes
  the window; the result posted to the parent window when the page runs in a frame; the
  local copy; and \<open>sendData\<close> in a \<open>try\<close>.
\<close>

definition sendResult_earlier ::
  "builtins \<Rightarrow> bool \<Rightarrow> game \<Rightarrow> jsval \<Rightarrow> effect list \<times> jserror option" where
  "sendResult_earlier B inFrame g result =
     ([Console Log ''Sending result:'']
      @ (case wa_query_id (g_tg g) of
           Some query_id \<Rightarrow>
             if query_id \<noteq> []
             then [Fetch ''/api/game-result''
                     (b_stringify B (JObj [(''query_id'', JStr query_id), (''result'', result)]))
                     [Close]
                     [Console Err ''Failed to send result:'']]
             else []
         | None \<Rightarrow> [])
      @ (if inFrame
         then [PostMessage (JObj [(''type'', JStr ''GAME_RESULT''), (''payload'', result)])]
         else [])
      @ [SetItem (session_key (g_config g)) (b_stringify B result)]
      @ try_sendData g (b_stringify B result) [] [Console Log ''Could not send data to Telegram:''],
      None)"

text \<open>How often a trace hands a payload to \<open>sendData\<close>, directly or from a callback.\<close>

fun sendData_calls :: "effect \<Rightarrow> nat"
  and sendData_calls_list :: "effect list \<Rightarrow> nat" where
  "sendData_calls (SendData s) = 1"
| "sendData_calls (SetTimeout d es) = sendData_calls_list es"
| "sendData_calls (Fetch u b es fs) = sendData_calls_list es + sendData_calls_list fs"
| "sendData_calls (Console l m) = 0"
| "sendData_calls (SetItem k v) = 0"
| "sendData_calls (Alert m) = 0"
| "sendData_calls (PostMessage v) = 0"
| "sendData_calls Close = 0"
| "sendData_calls (HostCall f) = 0"
| "sendData_calls Dom = 0"
| "sendData_calls_list [] = 0"
| "sendData_calls_list (e # es) = sendData_calls e + sendData_calls_list es"

section \<open>Game lifecycle\<close>

definition start :: "bool \<Rightarrow> nat \<Rightarrow> nat \<Rightarrow> game \<Rightarrow> game \<times> effect list" where
  "start inFrame now nowEvent g =
     (let g' = g\<lparr>g_state := (g_state g)\<lparr>st_status := ''playing'', st_startTime := Some now\<rparr>\<rparr>
      in (g',
          sendEvent inFrame nowEvent g' ''game_started''
            (JObj [(''difficulty'', JNum (cfg_difficulty (g_config g'))),
                   (''timeLimit'', cfg_timeLimit_val (g_config g')),
                   (''language'', JStr (cfg_language (g_config g')))])
          @ [Console Log ''Game started'']))"

text \<open>
  \<open>end(success)\<close>; in \<open>endTime - startTime\<close> a \<open>null\<close> start counts as \<open>0\<close>. The method
  returns the result, unless \<open>sendResult\<close> throws.
\<close>

definition end_game ::
  "builtins \<Rightarrow> hooks \<Rightarrow> nat \<Rightarrow> string \<Rightarrow> nat \<Rightarrow> string \<Rightarrow> bool \<Rightarrow> game
     \<Rightarrow> game \<times> effect list \<times> (jserror + jsval)" where
  "end_game B H now isoNow nowSend isoSend success g =
     (let startTime = (case st_startTime (g_state g) of None \<Rightarrow> 0 | Some s \<Rightarrow> s);
          g' = g\<lparr>g_state := (g_state g)
                  \<lparr>st_status := (if success then ''completed'' else ''failed''),
                   st_endTime := Some now,
                   st_timeElapsed := (int now - int startTime) div 1000\<rparr>\<rparr>;
          result = generateResult B H isoNow g' success
      in case sendResult B nowSend isoSend g' result of
           (t, None) \<Rightarrow> (g', t, Inr result)
         | (t, Some e) \<Rightarrow> (g', t, Inl e))"

text \<open>\<open>handleExit\<close>: \<open>answer\<close> is what the user replies to the \<open>confirm\<close> dialog.\<close>

definition handleExit ::
  "builtins \<Rightarrow> hooks \<Rightarrow> bool \<Rightarrow> nat \<Rightarrow> string \<Rightarrow> nat \<Rightarrow> string \<Rightarrow> game
     \<Rightarrow> game \<times> effect list \<times> (jserror + jsval)" where
  "handleExit B H answer now isoNow nowSend isoSend g =
     (if st_status (g_state g) = ''playing''
      then (if answer
            then (case end_game B H now isoNow nowSend isoSend False g of
                    (g', t, Inl e) \<Rightarrow> (g', HostCall ''confirm'' # t, Inl e)
                  | (g', t, Inr r) \<Rightarrow> (g', HostCall ''confirm'' # t, Inr JUndefined))
            else (g, [HostCall ''confirm''], Inr JUndefined))
      else (g, [Close], Inr JUndefined))"

definition handleThemeChange :: "effect list" where
  "handleThemeChange = [Dom, Dom, Console Log ''Theme changed'']"

text \<open>
  The methods of the class, each with its arguments and with what it reads from the clock
  and the user, and one call of a method on the object: the object afterwards, the
  effects, and the value returned or the exception thrown.
\<close>

datatype method_call =
    Start nat nat
  | End bool nat string nat string
  | RecordMilestone string jsval nat nat nat
  | GetMilestonesSummary
  | GenerateResult bool string
  | SendResult jsval nat string
  | SendEvent string jsval nat
  | SetTranslations bool translation_table
  | Translate string "string option"
  | ApplyTranslations
  | HandleExit bool nat string nat string
  | HandleThemeChange
  | GenerateOutputString bool
  | GetRating real
  | FormatTime int

fun call :: "builtins \<Rightarrow> hooks \<Rightarrow> bool \<Rightarrow> method_call \<Rightarrow> game \<Rightarrow> game \<times> effect list \<times> (jserror + jsval)" where
  "call B H inFrame (Start now nowEvent) g =
     (case start inFrame now nowEvent g of (g', t) \<Rightarrow> (g', t, Inr JUndefined))"
| "call B H inFrame (End success now isoNow nowSend isoSend) g =
     end_game B H now isoNow nowSend isoSend success g"
| "call B H inFrame (RecordMilestone name metadata now1 now2 now3) g =
     (case recordMilestone H inFrame now1 now2 now3 name metadata g of
        (g', t, milestone) \<Rightarrow> (g', t, Inr milestone))"
| "call B H inFrame GetMilestonesSummary g = (g, [], Inr (getMilestonesSummary g))"
| "call B H inFrame (GenerateResult success isoNow) g =
     (g, [], Inr (generateResult B H isoNow g success))"
| "call B H inFrame (SendResult result now isoNow) g =
     (case sendResult B now isoNow g result of
        (t, None) \<Rightarrow> (g, t, Inr JUndefined)
      | (t, Some e) \<Rightarrow> (g, t, Inl e))"
| "call B H inFrame (SendEvent eventName eventData now) g =
     (g, sendEvent inFrame now g eventName eventData, Inr JUndefined)"
| "call B H inFrame (SetTranslations loading table) g =
     (case setTranslations loading table g of (g', t) \<Rightarrow> (g', t, Inr JUndefined))"
| "call B H inFrame (Translate key fallback) g = (g, [], Inr (JStr (translate g key fallback)))"
| "call B H inFrame ApplyTranslations g = (g, applyTranslations g, Inr JUndefined)"
| "call B H inFrame (HandleExit answer now isoNow nowSend isoSend) g =
     handleExit B H answer now isoNow nowSend isoSend g"
| "call B H inFrame HandleThemeChange g = (g, handleThemeChange, Inr JUndefined)"
| "call B H inFrame (GenerateOutputString success) g =
     (g, [], Inr (JStr (generateOutputString B g success)))"
| "call B H inFrame (GetRating performance) g = (g, [], Inr (JStr (getRating performance)))"
| "call B H inFrame (FormatTime seconds) g = (g, [], Inr (JStr (formatTime seconds)))"

text \<open>
  A session: the calls made on the object one after the other. \<open>run\<close> gives the object
  after them, and \<open>returns\<close> what each call returned, in order.
\<close>

fun run :: "builtins \<Rightarrow> hooks \<Rightarrow> bool \<Rightarrow> method_call list \<Rightarrow> game \<Rightarrow> game" where
  "run B H inFrame [] g = g"
| "run B H inFrame (m # ms) g = run B H inFrame ms (fst (call B H inFrame m g))"

fun returns :: "builtins \<Rightarrow> hooks \<Rightarrow> bool \<Rightarrow> method_call list \<Rightarrow> game \<Rightarrow> (method_call \<times> (jserror + jsval)) list" where
  "returns B H inFrame [] g = []"
| "returns B H inFrame (m # ms) g =
     (case call B H inFrame m g of
        (g', t, r) \<Rightarrow> (m, r) # returns B H inFrame ms g')"

fun is_RecordMilestone :: "method_call \<Rightarrow> bool" where
  "is_RecordMilestone (RecordMilestone name metadata now1 now2 now3) = True"
| "is_RecordMilestone m = False"

text \<open>The milestones that the calls of \<open>recordMilestone\<close> returned, in the order of the calls.\<close>

definition recorded :: "(method_call \<times> (jserror + jsval)) list \<Rightarrow> jsval list" where
  "recorded rs = concat (map (\<lambda>(m, r). case r of Inr v \<Rightarrow> if is_RecordMilestone m then [v] else [] | Inl e \<Rightarrow> []) rs)"

section \<open>The status values and what each method does to the status\<close>

definition statuses :: "string list" where
  "statuses = [''idle'', ''playing'', ''paused'', ''completed'', ''failed'']"

text \<open>
  The status after a call, as the comments of the class describe it: \<open>start\<close> sets
  \<open>playing\<close>, \<open>end(success)\<close> sets \<open>completed\<close> or \<open>failed\<close>, and nothing else writes the
  field; \<open>handleExit\<close> ends a running game as failed, by calling \<open>end(false)\<close>, when the
  user confirms.
\<close>

fun status_spec :: "method_call \<Rightarrow> string \<Rightarrow> string" where
  "status_spec (Start now nowEvent) s = ''playing''"
| "status_spec (End success now isoNow nowSend isoSend) s =
     (if success then ''completed'' else ''failed'')"
| "status_spec (HandleExit answer now isoNow nowSend isoSend) s =
     (if s = ''playing'' \<and> answer then ''failed'' else s)"
| "status_spec m s = s"

section \<open>A concrete host\<close>

text \<open>
  One instance of the host functions, to run the model on concrete inputs. It reads
  unsigned decimal text as \<open>parseInt\<close> and \<open>parseFloat\<close> do, and writes JSON text as
  \<open>JSON.stringify\<close> does for whole numbers and for strings that need no escape.
\<close>

definition is_digit :: "char \<Rightarrow> bool" where
  "is_digit c = ((48::nat) \<le> of_char c \<and> of_char c \<le> (57::nat))"

definition digits_value :: "string \<Rightarrow> nat" where
  "digits_value ds = foldl (\<lambda>a c. 10 * a + (of_char c - 48)) 0 ds"

definition demo_parse :: "string \<Rightarrow> jsnum" where
  "demo_parse s =
     (let ds = takeWhile is_digit s in if ds = [] then NaN else Fin (real (digits_value ds)))"

definition quoted :: "string \<Rightarrow> string" where
  "quoted s = CHR 0x22 # s @ [CHR 0x22]"

fun json_text :: "jsval \<Rightarrow> string"
  and json_elems :: "jsval list \<Rightarrow> string list"
  and json_members :: "(string \<times> jsval) list \<Rightarrow> string list" where
  "json_text JUndefined = ''null''"
| "json_text JNull = ''null''"
| "json_text (JBool b) = (if b then ''true'' else ''false'')"
| "json_text (JNum NaN) = ''null''"
| "json_text (JNum (Fin x)) = decimal_int \<lfloor>x\<rfloor>"
| "json_text (JStr s) = quoted s"
| "json_text (JArr xs) = ''['' @ join '','' (json_elems xs) @ '']''"
| "json_text (JObj ps) = ''{'' @ join '','' (json_members ps) @ ''}''"
| "json_elems [] = []"
| "json_elems (x # xs) = json_text x # json_elems xs"
| "json_members [] = []"
| "json_members ((k, v) # ps) =
     (if v = JUndefined then json_members ps
      else (quoted k @ '':'' @ json_text v) # json_members ps)"

definition demo_toString :: "jsval \<Rightarrow> string" where
  "demo_toString v =
     (case v of
        JUndefined \<Rightarrow> ''undefined''
      | JNum NaN \<Rightarrow> ''NaN''
      | JStr s \<Rightarrow> s
      | JArr xs \<Rightarrow> join '','' (json_elems xs)
      | JObj ps \<Rightarrow> ''[object Object]''
      | _ \<Rightarrow> json_text v)"

definition demo_builtins :: builtins where
  "demo_builtins =
     \<lparr> b_parseInt = demo_parse, b_parseFloat = demo_parse,
       b_stringify = json_text, b_toString = demo_toString \<rparr>"

text \<open>
  Two bridges: inside the host, where \<open>sendData\<close> accepts every payload, and the page
  on its own, where there is no \<open>sendData\<close>.
\<close>

definition host_tg :: webapp where
  "host_tg = \<lparr> wa_sendData = Some (\<lambda>payload. None), wa_user = None, wa_initData = [],
                 wa_query_id = None \<rparr>"

definition offline_tg :: webapp where
  "offline_tg = \<lparr> wa_sendData = None, wa_user = None, wa_initData = [], wa_query_id = None \<rparr>"

definition demo_gameConfig :: jsval where
  "demo_gameConfig = JObj [(''gameId'', JStr ''hanoi''), (''gameName'', JStr ''Tower of Hanoi'')]"

definition demo_game :: "webapp \<Rightarrow> game" where
  "demo_game tg =
     \<lparr> g_config = default_config demo_gameConfig, g_state = initial_state, g_milestones = [],
       g_translations = [], g_tg = tg \<rparr>"

section \<open>Reading a trace\<close>

text \<open>Local storage after the effects of a trace; callbacks have not run yet.\<close>

fun store_effect :: "(string \<rightharpoonup> string) \<Rightarrow> effect \<Rightarrow> (string \<rightharpoonup> string)" where
  "store_effect st (SetItem k v) = st(k \<mapsto> v)"
| "store_effect st e = st"

definition storage_after :: "effect list \<Rightarrow> (string \<rightharpoonup> string) \<Rightarrow> (string \<rightharpoonup> string)" where
  "storage_after t st = foldl store_effect st t"

text \<open>
  The effects whose work goes on after the method has returned: a timer, a network
  request, a message posted to another window. \<open>Close\<close> in a trace itself closes the
  window at once; inside a timer or a request it does so from the callback.
\<close>

fun is_async :: "effect \<Rightarrow> bool" where
  "is_async (SetTimeout d es) = True"
| "is_async (Fetch u b es fs) = True"
| "is_async (PostMessage v) = True"
| "is_async e = False"

text \<open>Whether \<open>sendData\<close> is there and accepts the payload.\<close>

definition accepts :: "game \<Rightarrow> string \<Rightarrow> bool" where
  "accepts g payload =
     (case wa_sendData (g_tg g) of Some send \<Rightarrow> send payload = None | None \<Rightarrow> False)"




text \<open>Results for concrete runs.\<close>

definition long_name :: jsval where
  "long_name = JStr (replicate 5000 (CHR ''x''))"

definition valid_result :: jsval where
  "valid_result = JObj [(''sessionId'', JStr ''s1''), (''gameId'', JStr ''hanoi''),
                        (''score'', JNum (Fin 7))]"

definition oversized_result :: jsval where
  "oversized_result = JObj [(''sessionId'', JStr ''s1''), (''gameId'', JStr ''hanoi''),
                            (''gameName'', long_name)]"

text \<open>A name of 1500 euro signs: 4500 bytes, 1500 UTF-16 units.\<close>

definition euro :: string where
  "euro = [CHR 0xE2, CHR 0x82, CHR 0xAC]"

definition euro_result :: jsval where
  "euro_result = JObj [(''sessionId'', JStr ''s1''), (''gameId'', JStr ''hanoi''),
                       (''gameName'', JStr (concat (replicate 1500 euro)))]"

text \<open>A bridge in inline mode, where the host gives a \<open>query_id\<close>.\<close>

definition inline_tg :: webapp where
  "inline_tg = host_tg\<lparr>wa_query_id := Some ''q1''\<rparr>"

definition no_session_result :: jsval where
  "no_session_result = JObj [(''gameId'', JStr ''hanoi''), (''score'', JNum (Fin 7))]"

section \<open>Properties of the rating system\<close>

lemma getRating_cases:
  "getRating p = ''S'' \<or> getRating p = ''A'' \<or> getRating p = ''B''
   \<or> getRating p = ''C'' \<or> getRating p = ''D'' \<or> getRating p = ''F''"
  by (simp add: getRating_def)

lemma gradeRank_getRating:
  "gradeRank (getRating p) =
     (if p \<ge> 95 then 5 else if p \<ge> 85 then 4 else if p \<ge> 75 then 3
      else if p \<ge> 60 then 2 else if p \<ge> 40 then 1 else 0)"
  by (simp add: getRating_def gradeRank_def)

text \<open>
  Claim C10. \<open>getRating\<close> is total and monotone: every real performance gets exactly one
  of the six grades (the rank lists them without repetition), and a larger performance
  never gets a lower grade in the order \<open>F < D < C < B < A < S\<close>.
\<close>

theorem getRating_total_monotone:
  "getRating p \<in> set grades
   \<and> map gradeRank grades = [0, 1, 2, 3, 4, 5]
   \<and> (p1 \<le> p2 \<longrightarrow> gradeRank (getRating p1) \<le> gradeRank (getRating p2))"
proof -
  have total: "getRating p \<in> set grades"
    using getRating_cases [of p] by (auto simp: grades_def)
  have ranks: "map gradeRank grades = [0, 1, 2, 3, 4, 5]"
    by (simp add: grades_def gradeRank_def)
  have mono: "p1 \<le> p2 \<longrightarrow> gradeRank (getRating p1) \<le> gradeRank (getRating p2)"
    by (simp add: gradeRank_getRating)
  from total ranks mono show ?thesis by blast
qed

theorem getRating_total_monotone_witness:
  "(50::real) \<le> 90 \<and> getRating 50 = ''D'' \<and> getRating 90 = ''A''
   \<and> gradeRank (getRating 50) \<le> gradeRank (getRating 90)"
  using getRating_total_monotone [of 50 50 90] by (simp add: getRating_def)

section \<open>Properties of the result\<close>











section \<open>Properties of the configuration\<close>

text \<open>
  \<open>parseInputParams\<close> throws on exactly the query strings that have an empty \<open>lang\<close>
  and no \<open>language\<close>; on every other one it yields a configuration.
\<close>

lemma str_or_None: "str_or a b = None \<longleftrightarrow> (a = None \<or> a = Some []) \<and> b = None"
  by (cases a) auto

lemma parseInputParams_throws_iff:
  "(\<exists>e. parseInputParams B urlParams user c = Inl e)
     \<longleftrightarrow> (map_of urlParams ''lang'' = Some [] \<and> map_of urlParams ''language'' = None)"
  by (cases user)
     (auto simp: parseInputParams_def has_def Let_def str_or_None split: option.splits)

text \<open>
  Claim C3. \<open>parseInputParams\<close> does not yield a configuration for every query string:
  on \<open>?lang=\<close> (an empty \<open>lang\<close>, no \<open>language\<close>) the expression
  \<open>urlParams.get('lang') || urlParams.get('language')\<close> is \<open>null\<close>, the host's user
  record is not consulted because \<open>lang\<close> is present, and \<open>null.split('-')\<close> throws; the
  constructor throws with it, whatever the host functions and the user record are.
\<close>

theorem parseInputParams_empty_lang_throws:
  "parseInputParams B [(''lang'', [])] user c
     = Inl (TypeError ''Cannot read properties of null (reading 'split')'')
   \<and> constructor B tg [(''lang'', [])] (JObj props)
     = Inl (TypeError ''Cannot read properties of null (reading 'split')'')"
proof -
  have p: "\<And>c user. parseInputParams B [(''lang'', [])] user c
     = Inl (TypeError ''Cannot read properties of null (reading 'split')'')"
    by (simp add: parseInputParams_def has_def override_num_def Let_def split: option.splits)
  show ?thesis by (simp add: p constructor_def)
qed

section \<open>Properties of the session state\<close>

lemma end_game_fst:
  "fst (end_game B H now isoNow nowSend isoSend success g) =
     g\<lparr>g_state := (g_state g)
        \<lparr>st_status := (if success then ''completed'' else ''failed''),
         st_endTime := Some now,
         st_timeElapsed := (int now - int (case st_startTime (g_state g) of None \<Rightarrow> 0 | Some s \<Rightarrow> s)) div 1000\<rparr>\<rparr>"
  by (simp add: end_game_def Let_def split: prod.splits option.splits)

lemma handleExit_fst:
  "fst (handleExit B H answer now isoNow nowSend isoSend g) =
     (if st_status (g_state g) = ''playing'' \<and> answer
      then fst (end_game B H now isoNow nowSend isoSend False g) else g)"
  by (simp add: handleExit_def split: prod.splits sum.splits)

lemma call_status:
  "st_status (g_state (fst (call B H inFrame m g))) = status_spec m (st_status (g_state g))"
  by (cases m)
     (simp_all add: start_def Let_def end_game_fst handleExit_fst recordMilestone_def
        setTranslations_def split: prod.splits option.splits)

lemma status_spec_in:
  "s \<in> set statuses \<Longrightarrow> status_spec m s \<in> set statuses"
  by (cases m) (auto simp: statuses_def)

lemma run_status:
  "st_status (g_state g) \<in> set statuses \<Longrightarrow> st_status (g_state (run B H inFrame ms g)) \<in> set statuses"
  by (induction ms arbitrary: g) (simp_all add: call_status status_spec_in)

lemma constructor_fresh:
  "constructor B tg urlParams gameConfig = Inr g \<Longrightarrow>
     g_state g = initial_state \<and> g_milestones g = [] \<and> g_tg g = tg"
  by (auto simp: constructor_def split: if_splits sum.splits)

lemma demo_constructor:
  "constructor demo_builtins offline_tg [] demo_gameConfig = Inr (demo_game offline_tg)"
  by (simp add: constructor_def demo_gameConfig_def parseInputParams_def has_def override_num_def
        default_config_def demo_game_def Let_def toLowerCase_def split_first_def toLowerCase_char_def offline_tg_def)

text \<open>
  Claim C6. The status is \<open>idle\<close> after construction, \<open>playing\<close> after \<open>start\<close>,
  \<open>completed\<close> or \<open>failed\<close> after \<open>end(success)\<close> as \<open>success\<close> says; every method
  leaves it as \<open>status_spec\<close> says, that is unchanged unless the method is \<open>start\<close> or
  \<open>end\<close>, or \<open>handleExit\<close> calling \<open>end(false)\<close>; and after any sequence of calls on a
  constructed object it is one of the five status values.
\<close>

theorem status_lifecycle:
  "(constructor B tg urlParams gameConfig = Inr g0 \<longrightarrow> st_status (g_state g0) = ''idle'')
   \<and> st_status (g_state (fst (start inFrame now nowEvent g))) = ''playing''
   \<and> st_status (g_state (fst (end_game B H now isoNow nowSend isoSend success g)))
       = (if success then ''completed'' else ''failed'')
   \<and> st_status (g_state (fst (call B H inFrame m g))) = status_spec m (st_status (g_state g))
   \<and> (constructor B tg urlParams gameConfig = Inr g0 \<longrightarrow>
        st_status (g_state (run B H inFrame ms g0)) \<in> set statuses)"
proof -
  have fresh: "constructor B tg urlParams gameConfig = Inr g0 \<longrightarrow> st_status (g_state g0) = ''idle''"
    using constructor_fresh [of B tg urlParams gameConfig g0] by (simp add: initial_state_def)
  have st: "st_status (g_state (fst (start inFrame now nowEvent g))) = ''playing''"
    by (simp add: start_def Let_def)
  have en: "st_status (g_state (fst (end_game B H now isoNow nowSend isoSend success g)))
       = (if success then ''completed'' else ''failed'')"
    by (simp add: end_game_fst)
  have inv: "constructor B tg urlParams gameConfig = Inr g0 \<longrightarrow>
        st_status (g_state (run B H inFrame ms g0)) \<in> set statuses"
  proof
    assume "constructor B tg urlParams gameConfig = Inr g0"
    with fresh have "st_status (g_state g0) \<in> set statuses" by (simp add: statuses_def)
    then show "st_status (g_state (run B H inFrame ms g0)) \<in> set statuses" by (rule run_status)
  qed
  from fresh st en call_status inv show ?thesis by blast
qed

theorem status_lifecycle_witness:
  "constructor demo_builtins offline_tg [] demo_gameConfig = Inr (demo_game offline_tg)
   \<and> st_status (g_state (demo_game offline_tg)) = ''idle''
   \<and> st_status (g_state (fst (call demo_builtins base_hooks False (HandleExit True 5000 ''t'' 5001 ''t'')
         (fst (start False 1000 1001 (demo_game offline_tg)))))) = ''failed''
   \<and> st_status (g_state (run demo_builtins base_hooks False
         [Start 1000 1001, SendEvent ''x'' JNull 1500, End True 5000 ''t'' 5001 ''t''] (demo_game offline_tg)))
       \<in> set statuses"
proof -
  have h: "constructor demo_builtins offline_tg [] demo_gameConfig = Inr (demo_game offline_tg)"
    by (rule demo_constructor)
  have s: "st_status (g_state (fst (start False 1000 1001 (demo_game offline_tg)))) = ''playing''"
    by (simp add: start_def Let_def)
  show ?thesis
    using h s status_lifecycle [where B = demo_builtins and tg = offline_tg and urlParams = "[]"
        and gameConfig = demo_gameConfig and ?g0.0 = "demo_game offline_tg" and H = base_hooks
        and inFrame = False and g = "fst (start False 1000 1001 (demo_game offline_tg))"
        and m = "HandleExit True 5000 ''t'' 5001 ''t''"
        and ms = "[Start 1000 1001, SendEvent ''x'' JNull 1500, End True 5000 ''t'' 5001 ''t'']"]
    by simp
qed

section \<open>Properties of the milestones\<close>

lemma call_milestones:
  "g_milestones (fst (call B H inFrame m g)) = g_milestones g @ recorded [(m, snd (snd (call B H inFrame m g)))]"
  by (cases m)
     (simp_all add: recorded_def start_def Let_def end_game_fst handleExit_fst recordMilestone_def
        setTranslations_def handleExit_def end_game_def split: prod.splits option.splits sum.splits)

lemma recorded_Cons: "recorded (x # xs) = recorded [x] @ recorded xs"
  by (simp add: recorded_def)

lemma run_milestones:
  "g_milestones (run B H inFrame ms g) = g_milestones g @ recorded (returns B H inFrame ms g)"
proof (induction ms arbitrary: g)
  case Nil
  show ?case by (simp add: recorded_def)
next
  case (Cons m ms)
  obtain g' t r where c: "call B H inFrame m g = (g', t, r)" by (cases "call B H inFrame m g")
  have "g_milestones g' = g_milestones g @ recorded [(m, r)]"
    using call_milestones [of B H inFrame m g] c by simp
  then show ?case using Cons.IH [of g'] c recorded_Cons [of "(m, r)" "returns B H inFrame ms g'"] by simp
qed

lemma call_recorded_length:
  "length (recorded [(m, snd (snd (call B H inFrame m g)))]) = (if is_RecordMilestone m then 1 else 0)"
  by (cases m) (simp_all add: recorded_def recordMilestone_def Let_def split: prod.splits sum.splits)

lemma returns_recorded_length:
  "length (recorded (returns B H inFrame ms g)) = length (filter is_RecordMilestone ms)"
proof (induction ms arbitrary: g)
  case Nil
  show ?case by (simp add: recorded_def)
next
  case (Cons m ms)
  obtain g' t r where c: "call B H inFrame m g = (g', t, r)" by (cases "call B H inFrame m g")
  show ?case using Cons.IH [of g'] c call_recorded_length [of m B H inFrame g]
      recorded_Cons [of "(m, r)" "returns B H inFrame ms g'"] by simp
qed

text \<open>
  Claim C7. After any sequence of calls on a constructed object, \<open>getMilestonesSummary\<close>
  is \<open>null\<close> exactly when no milestone was recorded; otherwise its \<open>count\<close> is the number
  of \<open>recordMilestone\<close> calls, its \<open>milestones\<close> are the milestones those calls returned,
  in order, and \<open>firstMilestone\<close> and \<open>lastMilestone\<close> are the first and the last of them.
\<close>

theorem getMilestonesSummary_history:
  assumes "constructor B tg urlParams gameConfig = Inr g0"
  shows "let g = run B H inFrame ms g0; rec = recorded (returns B H inFrame ms g0)
         in length rec = length (filter is_RecordMilestone ms)
            \<and> (getMilestonesSummary g = JNull \<longleftrightarrow> rec = [])
            \<and> (rec \<noteq> [] \<longrightarrow>
                 getMilestonesSummary g =
                   JObj [(''count'', JNum (Fin (real (length rec)))),
                         (''milestones'', JArr rec),
                         (''firstMilestone'', hd rec),
                         (''lastMilestone'', last rec)])"
proof -
  let ?rec = "recorded (returns B H inFrame ms g0)"
  have "g_milestones g0 = []" using constructor_fresh [OF assms] by simp
  then have ms: "g_milestones (run B H inFrame ms g0) = ?rec"
    using run_milestones [of B H inFrame ms g0] by simp
  have len: "length ?rec = length (filter is_RecordMilestone ms)"
    by (rule returns_recorded_length)
  have null: "getMilestonesSummary (run B H inFrame ms g0) = JNull \<longleftrightarrow> ?rec = []"
    by (simp add: getMilestonesSummary_def ms)
  have some: "?rec \<noteq> [] \<longrightarrow>
                 getMilestonesSummary (run B H inFrame ms g0) =
                   JObj [(''count'', JNum (Fin (real (length ?rec)))),
                         (''milestones'', JArr ?rec),
                         (''firstMilestone'', hd ?rec),
                         (''lastMilestone'', last ?rec)]"
    by (simp add: getMilestonesSummary_def ms hd_conv_nth last_conv_nth)
  from len null some show ?thesis by (simp add: Let_def)
qed

theorem getMilestonesSummary_history_witness:
  "constructor demo_builtins offline_tg [] demo_gameConfig = Inr (demo_game offline_tg)
   \<and> length (recorded (returns demo_builtins base_hooks False
        [Start 1000 1001, RecordMilestone ''first'' JUndefined 2000 2000 2001, GetMilestonesSummary,
         RecordMilestone ''second'' JUndefined 3000 3000 3001] (demo_game offline_tg))) = 2
   \<and> getMilestonesSummary (run demo_builtins base_hooks False
        [Start 1000 1001, RecordMilestone ''first'' JUndefined 2000 2000 2001, GetMilestonesSummary,
         RecordMilestone ''second'' JUndefined 3000 3000 3001] (demo_game offline_tg)) \<noteq> JNull"
proof -
  have h: "constructor demo_builtins offline_tg [] demo_gameConfig = Inr (demo_game offline_tg)"
    by (rule demo_constructor)
  show ?thesis
    using h getMilestonesSummary_history [OF h, of base_hooks False
        "[Start 1000 1001, RecordMilestone ''first'' JUndefined 2000 2000 2001, GetMilestonesSummary,
         RecordMilestone ''second'' JUndefined 3000 3000 3001]"]
    by (auto simp: Let_def)
qed

section \<open>Properties of sending the result\<close>

lemma truthy_prop_object: "truthy (get_prop result k) \<Longrightarrow> \<not> nullish result"
  by (cases result) simp_all

lemma sendData_calls_append [simp]:
  "sendData_calls_list (xs @ ys) = sendData_calls_list xs + sendData_calls_list ys"
  by (induction xs) simp_all

lemma generateResult_ids:
  "get_prop (generateResult B H isoNow g success) ''sessionId'' = cfg_sessionId_val (g_config g)
   \<and> get_prop (generateResult B H isoNow g success) ''gameId'' = cfg_gameId (g_config g)
   \<and> \<not> nullish (generateResult B H isoNow g success)"
  by (simp add: generateResult_def Let_def)

lemma utf16_length_Nil [simp]: "utf16_length [] = 0"
  by (simp add: utf16_length_def)

lemma utf16_length_Cons [simp]: "utf16_length (c # s) = utf16_units c + utf16_length s"
  by (simp add: utf16_length_def)

lemma utf16_length_append [simp]: "utf16_length (s @ t) = utf16_length s + utf16_length t"
  by (simp add: utf16_length_def)





lemma short_compact: "utf16_length (json_text (compactResult valid_result)) \<le> 4096"
  by (simp add: compactResult_def valid_result_def js_or_def opt_member_def quoted_def
        utf16_units_def decimal_int_def decimal_nat.simps digit_char_def)



text \<open>
  Claim C8. A result whose \<open>sessionId\<close> or \<open>gameId\<close> is falsy is rejected at once:
  \<open>sendResult\<close> logs the result and the rejection and returns; it does not call
  \<open>sendData\<close>, writes nothing to local storage and leaves the object as it was.
\<close>

theorem sendResult_rejects_invalid:
  assumes "\<not> nullish result"
    and "\<not> truthy (get_prop result ''sessionId'') \<or> \<not> truthy (get_prop result ''gameId'')"
  shows "sendResult B now isoNow g result
           = ([Console Log ''Sending result:'',
               Console Err ''Invalid result: missing sessionId or gameId''], None)
         \<and> sendData_calls_list (fst (sendResult B now isoNow g result)) = 0
         \<and> storage_after (fst (sendResult B now isoNow g result)) st = st
         \<and> call B H inFrame (SendResult result now isoNow) g
             = (g, [Console Log ''Sending result:'',
                    Console Err ''Invalid result: missing sessionId or gameId''], Inr JUndefined)"
proof -
  have r: "sendResult B now isoNow g result
           = ([Console Log ''Sending result:'',
               Console Err ''Invalid result: missing sessionId or gameId''], None)"
    using assms by (auto simp: sendResult_def Let_def)
  show ?thesis by (simp add: r storage_after_def)
qed

theorem sendResult_rejects_invalid_witness:
  "\<not> nullish no_session_result
   \<and> \<not> truthy (get_prop no_session_result ''sessionId'')
   \<and> sendResult demo_builtins 1000 ''t'' (demo_game host_tg) no_session_result
         = ([Console Log ''Sending result:'',
             Console Err ''Invalid result: missing sessionId or gameId''], None)
   \<and> storage_after (fst (sendResult demo_builtins 1000 ''t'' (demo_game host_tg) no_session_result))
         Map.empty = Map.empty"
proof -
  have h1: "\<not> nullish no_session_result" by (simp add: no_session_result_def)
  have h2: "\<not> truthy (get_prop no_session_result ''sessionId'')
            \<or> \<not> truthy (get_prop no_session_result ''gameId'')"
    by (simp add: no_session_result_def)
  have h3: "\<not> truthy (get_prop no_session_result ''sessionId'')"
    by (simp add: no_session_result_def)
  note c = sendResult_rejects_invalid [OF h1 h2, of demo_builtins 1000 "''t''" "demo_game host_tg"
        Map.empty base_hooks False]
  from h1 h3 c show ?thesis by blast
qed

text \<open>
  Claim C4, as stated, fails when the page runs on its own without a \<open>sessionId\<close> in the
  query string: the result of \<open>generateResult\<close> then has \<open>sessionId\<close> \<open>null\<close>, and
  \<open>sendResult\<close> rejects it before the fallback; nothing is stored and no alert is shown.
\<close>

theorem sendResult_fallback_counterexample:
  "wa_sendData (g_tg (demo_game offline_tg)) = None
   \<and> sendResult demo_builtins 5001 ''t'' (demo_game offline_tg)
        (generateResult demo_builtins base_hooks ''t'' (demo_game offline_tg) True)
       = ([Console Log ''Sending result:'',
           Console Err ''Invalid result: missing sessionId or gameId''], None)"
proof -
  have a: "wa_sendData (g_tg (demo_game offline_tg)) = None"
    by (simp add: demo_game_def offline_tg_def)
  have s: "get_prop (generateResult demo_builtins base_hooks ''t'' (demo_game offline_tg) True) ''sessionId'' = JNull"
    using generateResult_ids [of demo_builtins base_hooks "''t''" "demo_game offline_tg" True]
    by (simp add: cfg_sessionId_val_def demo_game_def default_config_def)
  have n: "\<not> nullish (generateResult demo_builtins base_hooks ''t'' (demo_game offline_tg) True)"
    using generateResult_ids [of demo_builtins base_hooks "''t''" "demo_game offline_tg" True] by simp
  have b: "sendResult demo_builtins 5001 ''t'' (demo_game offline_tg)
        (generateResult demo_builtins base_hooks ''t'' (demo_game offline_tg) True)
       = ([Console Log ''Sending result:'',
           Console Err ''Invalid result: missing sessionId or gameId''], None)"
    using s n by (simp add: sendResult_def Let_def)
  from a b show ?thesis by simp
qed


text \<open>
  Claim C4, amended. When \<open>sendData\<close> is not available and the result has a truthy
  \<open>sessionId\<close> and \<open>gameId\<close> and a compact serialisation whose \<open>length\<close> is at most 4096,
  \<open>sendResult\<close>
  stores that serialisation under \<open>game_result_\<close> followed by the session id of the
  configuration and under \<open>game_result_latest\<close>, shows the alert, and returns without an
  exception.
\<close>

theorem sendResult_fallback:
  assumes "wa_sendData (g_tg g) = None"
    and "truthy (get_prop result ''sessionId'')" and "truthy (get_prop result ''gameId'')"
    and "utf16_length (b_stringify B (compactResult result)) \<le> 4096"
  shows "sendResult B now isoNow g result
           = ([Console Log ''Sending result:'',
               Console Log (''Result size: '' @ decimal_nat (utf16_length (b_stringify B (compactResult result)))
                            @ '' bytes (limit: 4096)''),
               Console Log (''Result validated: '' @ decimal_nat (utf16_length (b_stringify B (compactResult result)))
                            @ '' bytes''),
               Console Warn ''Telegram.WebApp.sendData() not available'',
               Console Log ''Saving to localStorage instead'',
               SetItem (session_key (g_config g)) (b_stringify B (compactResult result)),
               SetItem ''game_result_latest'' (b_stringify B (compactResult result)),
               Alert alert_saved], None)
         \<and> storage_after (fst (sendResult B now isoNow g result)) st (session_key (g_config g))
             = Some (b_stringify B (compactResult result))
         \<and> storage_after (fst (sendResult B now isoNow g result)) st ''game_result_latest''
             = Some (b_stringify B (compactResult result))"
proof -
  have obj: "\<not> nullish result" using assms(2) by (rule truthy_prop_object)
  have t: "sendResult_try B isoNow g result
             = ([Console Log (''Result size: '' @ decimal_nat (utf16_length (b_stringify B (compactResult result)))
                            @ '' bytes (limit: 4096)''),
               Console Log (''Result validated: '' @ decimal_nat (utf16_length (b_stringify B (compactResult result)))
                            @ '' bytes''),
               Console Warn ''Telegram.WebApp.sendData() not available'',
               Console Log ''Saving to localStorage instead'',
               SetItem (session_key (g_config g)) (b_stringify B (compactResult result)),
               SetItem ''game_result_latest'' (b_stringify B (compactResult result)),
               Alert alert_saved], None)"
    using assms(1,4) by (simp add: sendResult_try_def Let_def)
  have r: "sendResult B now isoNow g result
           = ([Console Log ''Sending result:'',
               Console Log (''Result size: '' @ decimal_nat (utf16_length (b_stringify B (compactResult result)))
                            @ '' bytes (limit: 4096)''),
               Console Log (''Result validated: '' @ decimal_nat (utf16_length (b_stringify B (compactResult result)))
                            @ '' bytes''),
               Console Warn ''Telegram.WebApp.sendData() not available'',
               Console Log ''Saving to localStorage instead'',
               SetItem (session_key (g_config g)) (b_stringify B (compactResult result)),
               SetItem ''game_result_latest'' (b_stringify B (compactResult result)),
               Alert alert_saved], None)"
    using obj assms(2,3) by (simp add: sendResult_def t Let_def)
  show ?thesis by (simp add: r storage_after_def)
qed

theorem sendResult_fallback_witness:
  "wa_sendData (g_tg (demo_game offline_tg)) = None
   \<and> truthy (get_prop valid_result ''sessionId'') \<and> truthy (get_prop valid_result ''gameId'')
   \<and> utf16_length (b_stringify demo_builtins (compactResult valid_result)) \<le> 4096
   \<and> session_key (g_config (demo_game offline_tg)) = ''game_result_null''
   \<and> snd (sendResult demo_builtins 1000 ''t'' (demo_game offline_tg) valid_result) = None
   \<and> storage_after (fst (sendResult demo_builtins 1000 ''t'' (demo_game offline_tg) valid_result))
        Map.empty ''game_result_latest''
       = Some (b_stringify demo_builtins (compactResult valid_result))
   \<and> storage_after (fst (sendResult demo_builtins 1000 ''t'' (demo_game offline_tg) valid_result))
        Map.empty (session_key (g_config (demo_game offline_tg)))
       = Some (b_stringify demo_builtins (compactResult valid_result))"
proof -
  have h1: "wa_sendData (g_tg (demo_game offline_tg)) = None"
    by (simp add: demo_game_def offline_tg_def)
  have h2: "truthy (get_prop valid_result ''sessionId'')" by (simp add: valid_result_def)
  have h3: "truthy (get_prop valid_result ''gameId'')" by (simp add: valid_result_def)
  have h4: "utf16_length (b_stringify demo_builtins (compactResult valid_result)) \<le> 4096"
    using short_compact by (simp add: demo_builtins_def)
  have k: "session_key (g_config (demo_game offline_tg)) = ''game_result_null''"
    by (simp add: session_key_def demo_game_def default_config_def)
  note c = sendResult_fallback [OF h1 h2 h3 h4, of 1000 "''t''" Map.empty]
  have r: "snd (sendResult demo_builtins 1000 ''t'' (demo_game offline_tg) valid_result) = None"
    using c by (simp only: snd_conv)
  from h1 h2 h3 h4 k r c show ?thesis by blast
qed


lemma sendResult_sent_trace:
  assumes "truthy (get_prop result ''sessionId'')" and "truthy (get_prop result ''gameId'')"
    and "utf16_length (b_stringify B (compactResult result)) \<le> 4096"
    and "wa_sendData (g_tg g) = Some send"
    and "send (b_stringify B (compactResult result)) = None"
  shows "sendResult B now isoNow g result
           = ([Console Log ''Sending result:'',
               Console Log (''Result size: ''
                            @ decimal_nat (utf16_length (b_stringify B (compactResult result)))
                            @ '' bytes (limit: 4096)''),
               Console Log (''Result validated: ''
                            @ decimal_nat (utf16_length (b_stringify B (compactResult result)))
                            @ '' bytes''),
               Console Log ''Calling Telegram.WebApp.sendData()...'',
               SetItem ''game_result_latest'' (b_stringify B (compactResult result)),
               SetItem ''last_send_time'' isoNow,
               SendData (b_stringify B (compactResult result)),
               Console Log ''Data sent! Telegram will close WebApp automatically.''], None)"
proof -
  have obj: "\<not> nullish result" using assms(1) by (rule truthy_prop_object)
  have t: "sendResult_try B isoNow g result
           = ([Console Log (''Result size: ''
                            @ decimal_nat (utf16_length (b_stringify B (compactResult result)))
                            @ '' bytes (limit: 4096)''),
               Console Log (''Result validated: ''
                            @ decimal_nat (utf16_length (b_stringify B (compactResult result)))
                            @ '' bytes''),
               Console Log ''Calling Telegram.WebApp.sendData()...'',
               SetItem ''game_result_latest'' (b_stringify B (compactResult result)),
               SetItem ''last_send_time'' isoNow,
               SendData (b_stringify B (compactResult result)),
               Console Log ''Data sent! Telegram will close WebApp automatically.''], None)"
    using assms(3,4,5) by (simp add: sendResult_try_def Let_def)
  show ?thesis using obj assms(1,2) by (simp add: sendResult_def t Let_def)
qed

lemma demo_ids:
  "truthy (get_prop valid_result ''sessionId'') \<and> truthy (get_prop valid_result ''gameId'')
   \<and> truthy (get_prop oversized_result ''sessionId'') \<and> truthy (get_prop oversized_result ''gameId'')
   \<and> truthy (get_prop euro_result ''sessionId'') \<and> truthy (get_prop euro_result ''gameId'')"
  by (simp add: valid_result_def oversized_result_def euro_result_def)

lemma host_sends: "wa_sendData (g_tg (demo_game host_tg)) = Some (\<lambda>payload. None)"
  by (simp add: demo_game_def host_tg_def)



text \<open>
  \<open>sendResult\<close> of \<open>game-interface.js\<close> and of \<open>game-interface_working.js\<close> hand a payload
  to \<open>sendData\<close> at most once.
\<close>

lemma sendResult_try_sendData_calls:
  "sendData_calls_list (fst (sendResult_try B isoNow g result)) \<le> 1"
  by (simp add: sendResult_try_def Let_def split: option.splits)

lemma sendResult_sendData_at_most_once:
  "sendData_calls_list (fst (sendResult B now isoNow g result)) \<le> 1"
  using sendResult_try_sendData_calls [of B isoNow g result]
  by (auto simp: sendResult_def Let_def split: option.splits prod.splits)

lemma sendResult_working_sendData_at_most_once:
  "sendData_calls_list (fst (sendResult_working B now g result)) \<le> 1"
  by (simp add: sendResult_working_def sendResult_working_try_def Let_def split: option.splits prod.splits)

text \<open>
  Claim C2. \<open>sendResult\<close> of \<open>src/unnamed/part_000\<close> does not keep to one call: whenever
  the bridge has a \<open>sendData\<close> function, the same payload is handed to it twice, once
  before the request to the backend and once more at the end, whether the first call
  returned or threw.
\<close>

theorem sendResult_part000_sends_twice:
  "sendData_calls_list
     (fst (sendResult_part000 B (g\<lparr>g_tg := (g_tg g)\<lparr>wa_sendData := Some send\<rparr>\<rparr>) result)) = 2"
  by (simp add: sendResult_part000_def try_sendData_def Let_def split: option.splits)

text \<open>
  The asynchronous effects of each version of \<open>sendResult\<close>, and that no version closes
  the window in the trace itself.
\<close>

lemma sendResult_try_async:
  "filter is_async (fst (sendResult_try B isoNow g result)) = []
   \<and> Close \<notin> set (fst (sendResult_try B isoNow g result))"
  by (simp add: sendResult_try_def Let_def split: option.splits)

lemma sendResult_async:
  "filter is_async (fst (sendResult B now isoNow g result)) = []
   \<and> Close \<notin> set (fst (sendResult B now isoNow g result))"
  using sendResult_try_async [of B isoNow g result]
  by (auto simp: sendResult_def Let_def split: option.splits prod.splits)

lemma sendResult_working_try_async:
  "filter is_async (fst (sendResult_working_try B g result))
     = (if accepts g (b_stringify B result)
        then [SetTimeout 1500 [Console Log ''Closing WebApp...'', Close]] else [])
   \<and> Close \<notin> set (fst (sendResult_working_try B g result))"
  by (simp add: sendResult_working_try_def accepts_def Let_def split: option.splits)

lemma sendResult_working_async:
  "filter is_async (fst (sendResult_working B now g result))
     = (if truthy (get_prop result ''sessionId'') \<and> truthy (get_prop result ''gameId'')
           \<and> accepts g (b_stringify B result)
        then [SetTimeout 1500 [Console Log ''Closing WebApp...'', Close]] else [])
   \<and> Close \<notin> set (fst (sendResult_working B now g result))"
proof (cases "truthy (get_prop result ''sessionId'') \<and> truthy (get_prop result ''gameId'')")
  case True
  then have obj: "\<not> nullish result" using truthy_prop_object by blast
  obtain t e where te: "sendResult_working_try B g result = (t, e)"
    by (cases "sendResult_working_try B g result")
  show ?thesis
    using True obj te sendResult_working_try_async [of B g result]
    by (cases e) (simp_all add: sendResult_working_def Let_def)
next
  case False
  then show ?thesis by (auto simp: sendResult_working_def Let_def)
qed

lemma sendResult_part000_async:
  "filter is_async (fst (sendResult_part000 B g result))
     = (if truthy (cfg_sessionId_val (g_config g))
        then [Fetch ''/api/game-result'' (b_stringify B result)
                [Console Log ''Result confirmed by server:'', SetTimeout 1000 [Close]]
                [Console Err ''Server error:'', SetTimeout 1000 [Close]]]
        else [])
   \<and> Close \<notin> set (fst (sendResult_part000 B g result))"
  by (simp add: sendResult_part000_def try_sendData_def cfg_sessionId_val_def Let_def
        split: option.splits)

lemma sendResult_earlier_async:
  "filter is_async (fst (sendResult_earlier B inFrame g result))
     = (case wa_query_id (g_tg g) of
          Some query_id \<Rightarrow>
            if query_id \<noteq> []
            then [Fetch ''/api/game-result''
                    (b_stringify B (JObj [(''query_id'', JStr query_id), (''result'', result)]))
                    [Close]
                    [Console Err ''Failed to send result:'']]
            else []
        | None \<Rightarrow> [])
       @ (if inFrame
          then [PostMessage (JObj [(''type'', JStr ''GAME_RESULT''), (''payload'', result)])]
          else [])
   \<and> Close \<notin> set (fst (sendResult_earlier B inFrame g result))"
  by (simp add: sendResult_earlier_def try_sendData_def Let_def split: option.splits)

lemma sendResult_working_sent:
  assumes "truthy (get_prop result ''sessionId'')" and "truthy (get_prop result ''gameId'')"
    and "accepts g (b_stringify B result)"
  shows "\<exists>t. fst (sendResult_working B now g result)
              = t @ [SendData (b_stringify B result),
                     Console Log ''Result sent via Telegram.WebApp.sendData()'',
                     SetTimeout 1500 [Console Log ''Closing WebApp...'', Close]]"
proof -
  have obj: "\<not> nullish result" using assms(1) by (rule truthy_prop_object)
  obtain t1 where t: "sendResult_working_try B g result
      = (t1 @ [SendData (b_stringify B result),
               Console Log ''Result sent via Telegram.WebApp.sendData()'',
               SetTimeout 1500 [Console Log ''Closing WebApp...'', Close]], None)"
    using assms(3) by (auto simp: sendResult_working_try_def accepts_def Let_def split: option.splits)
  have "fst (sendResult_working B now g result)
          = (Console Log ''Sending result:'' # t1) @ [SendData (b_stringify B result),
               Console Log ''Result sent via Telegram.WebApp.sendData()'',
               SetTimeout 1500 [Console Log ''Closing WebApp...'', Close]]"
    using obj assms(1,2) by (simp add: sendResult_working_def t Let_def)
  then show ?thesis by blast
qed

lemma host_accepts: "accepts (demo_game host_tg) payload"
  by (simp add: accepts_def demo_game_def host_tg_def)

text \<open>
  Claim C5, as stated, fails on two of the versions. In \<open>game-interface.js\<close> a result
  that \<open>sendData\<close> has accepted is followed by no timer: \<open>sendResult\<close> starts nothing
  asynchronous and never closes the window. In the earlier copy of the class the window
  is closed from the callback of the request itself, with no timer, and the result is
  also posted to the parent window.
\<close>

theorem sendResult_async_counterexample:
  "sendData_calls_list (fst (sendResult demo_builtins 1000 ''t'' (demo_game host_tg) valid_result)) = 1
   \<and> filter is_async (fst (sendResult demo_builtins 1000 ''t'' (demo_game host_tg) valid_result)) = []
   \<and> filter is_async (fst (sendResult_earlier demo_builtins True (demo_game inline_tg) valid_result))
       = [Fetch ''/api/game-result''
            (b_stringify demo_builtins (JObj [(''query_id'', JStr ''q1''), (''result'', valid_result)]))
            [Close]
            [Console Err ''Failed to send result:''],
          PostMessage (JObj [(''type'', JStr ''GAME_RESULT''), (''payload'', valid_result)])]"
proof -
  have units: "utf16_length (b_stringify demo_builtins (compactResult valid_result)) \<le> 4096"
    using short_compact by (simp add: demo_builtins_def)
  have one: "sendData_calls_list (fst (sendResult demo_builtins 1000 ''t'' (demo_game host_tg) valid_result)) = 1"
    using demo_ids units host_sends
      sendResult_sent_trace [of valid_result demo_builtins "demo_game host_tg" "\<lambda>payload. None" 1000 "''t''"]
    by simp
  have none: "filter is_async (fst (sendResult demo_builtins 1000 ''t'' (demo_game host_tg) valid_result)) = []"
    using sendResult_async by blast
  have q: "wa_query_id (g_tg (demo_game inline_tg)) = Some ''q1''"
    by (simp add: demo_game_def inline_tg_def)
  have earlier: "filter is_async (fst (sendResult_earlier demo_builtins True (demo_game inline_tg) valid_result))
       = [Fetch ''/api/game-result''
            (b_stringify demo_builtins (JObj [(''query_id'', JStr ''q1''), (''result'', valid_result)]))
            [Close]
            [Console Err ''Failed to send result:''],
          PostMessage (JObj [(''type'', JStr ''GAME_RESULT''), (''payload'', valid_result)])]"
    using sendResult_earlier_async [of demo_builtins True "demo_game inline_tg" valid_result] q
    by simp
  from one none earlier show ?thesis by blast
qed

text \<open>
  Claim C5, amended. No version of \<open>sendResult\<close> closes the host window in its own
  course. \<open>game-interface.js\<close> starts nothing asynchronous and leaves the closing to the
  host. \<open>game-interface_working.js\<close> starts one thing, the timer that closes the window,
  exactly when the result passed the check and \<open>sendData\<close> accepted it, and sets it
  right after \<open>sendData\<close>. \<open>src/unnamed/part_000\<close> starts one thing, the request to the
  backend, exactly when the session has an id, and both callbacks of the request set the
  timer that closes the window. The earlier copy starts the request when the host gave a
  \<open>query_id\<close>, closing the window from its callback without a timer, and posts the
  result to the parent window when the page runs in a frame.
\<close>

theorem sendResult_async_effects:
  "(filter is_async (fst (sendResult B now isoNow g result)) = []
    \<and> Close \<notin> set (fst (sendResult B now isoNow g result)))
   \<and> (filter is_async (fst (sendResult_working B now g result))
        = (if truthy (get_prop result ''sessionId'') \<and> truthy (get_prop result ''gameId'')
              \<and> accepts g (b_stringify B result)
           then [SetTimeout 1500 [Console Log ''Closing WebApp...'', Close]] else [])
       \<and> Close \<notin> set (fst (sendResult_working B now g result)))
   \<and> (truthy (get_prop result ''sessionId'') \<and> truthy (get_prop result ''gameId'')
        \<and> accepts g (b_stringify B result) \<longrightarrow>
        (\<exists>t. fst (sendResult_working B now g result)
              = t @ [SendData (b_stringify B result),
                     Console Log ''Result sent via Telegram.WebApp.sendData()'',
                     SetTimeout 1500 [Console Log ''Closing WebApp...'', Close]]))
   \<and> (filter is_async (fst (sendResult_part000 B g result))
        = (if truthy (cfg_sessionId_val (g_config g))
           then [Fetch ''/api/game-result'' (b_stringify B result)
                   [Console Log ''Result confirmed by server:'', SetTimeout 1000 [Close]]
                   [Console Err ''Server error:'', SetTimeout 1000 [Close]]]
           else [])
       \<and> Close \<notin> set (fst (sendResult_part000 B g result)))
   \<and> (filter is_async (fst (sendResult_earlier B inFrame g result))
        = (case wa_query_id (g_tg g) of
             Some query_id \<Rightarrow>
               if query_id \<noteq> []
               then [Fetch ''/api/game-result''
                       (b_stringify B (JObj [(''query_id'', JStr query_id), (''result'', result)]))
                       [Close]
                       [Console Err ''Failed to send result:'']]
               else []
           | None \<Rightarrow> [])
          @ (if inFrame
             then [PostMessage (JObj [(''type'', JStr ''GAME_RESULT''), (''payload'', result)])]
             else [])
       \<and> Close \<notin> set (fst (sendResult_earlier B inFrame g result)))"
  using sendResult_async [of B now isoNow g result]
    sendResult_working_async [of B now g result]
    sendResult_working_sent [of result g B now]
    sendResult_part000_async [of B g result]
    sendResult_earlier_async [of B inFrame g result]
  by blast

theorem sendResult_async_effects_witness:
  "truthy (get_prop valid_result ''sessionId'') \<and> truthy (get_prop valid_result ''gameId'')
   \<and> accepts (demo_game host_tg) (b_stringify demo_builtins valid_result)
   \<and> filter is_async (fst (sendResult_working demo_builtins 1000 (demo_game host_tg) valid_result))
       = [SetTimeout 1500 [Console Log ''Closing WebApp...'', Close]]
   \<and> (\<exists>t. fst (sendResult_working demo_builtins 1000 (demo_game host_tg) valid_result)
            = t @ [SendData (b_stringify demo_builtins valid_result),
                   Console Log ''Result sent via Telegram.WebApp.sendData()'',
                   SetTimeout 1500 [Console Log ''Closing WebApp...'', Close]])"
proof -
  have h1: "truthy (get_prop valid_result ''sessionId'')" using demo_ids by blast
  have h2: "truthy (get_prop valid_result ''gameId'')" using demo_ids by blast
  have h3: "accepts (demo_game host_tg) (b_stringify demo_builtins valid_result)"
    by (rule host_accepts)
  show ?thesis
    using h1 h2 h3 sendResult_async_effects [of demo_builtins 1000 "''t''" "demo_game host_tg"
        valid_result False]
    by simp
qed

end
